theory Spec2Isabelle
  imports Complex_Main "HOL-Library.Sublist"
begin

section \<open>The dashboard script \<^verbatim>\<open>streamlit_app.py\<close> as a shallow embedding\<close>

text \<open>
  The program is one Streamlit script: every user interaction runs it from top to
  bottom. A run reads the widgets' current values, the session state, the files of
  the artifact directories and the chat gateway, and it emits page elements. The
  model makes all of that explicit:
  \<^item> the widgets' values of one run are a record \<open>inputs\<close>;
  \<^item> \<^verbatim>\<open>st.session_state\<close> is a record \<open>session_state\<close>, passed in and returned;
  \<^item> the file system, the libraries' parsers and the gateway are a record \<open>env\<close>;
  \<^item> everything the run does to the outside (page elements, file accesses, gateway
    calls) is appended to a trace of \<open>effect\<close>s, in program order;
  \<^item> a Python exception is a value \<open>Inl e\<close>; the statements after it do not run.
  Python strings are \<open>string\<close>; file contents are the decoded text of the file.
  Keyword arguments that only style an element (help texts, placeholder, widget
  keys, colours, height and width, \<^verbatim>\<open>unsafe_allow_html\<close>, \<^verbatim>\<open>hide_index\<close>) are not part of
  the recorded effects.
\<close>

subsection \<open>Data\<close>

datatype exc =
    ValueError string
  | FileNotFoundError string
  | KeyError "string list"
  | IndexError string
  | LibraryError string

text \<open>A table cell as pandas holds it: a string, a number, or the missing value.\<close>

datatype cell = Str string | Num real | NaN

record dataframe =
  columns :: "string list"
  rows :: "cell list list"

text \<open>
  A text file object as \<^verbatim>\<open>open(path, 'r', encoding='utf-8')\<close> returns it: the text
  of the file and the read position.
\<close>

record file_handle =
  content :: string
  pos :: nat

datatype download_data = DataStr string | DataFile file_handle

text \<open>
  The gateway's response object. Its \<^verbatim>\<open>.text\<close> accessor either yields the generated
  text or raises; \<open>Inl m\<close> is an exception whose \<^verbatim>\<open>str\<close> is \<open>m\<close>.
\<close>

datatype gen_response = Response (response_text: "string + string")

record figure =
  bars :: "(cell \<times> cell) list"
  title :: string
  xlabel :: string
  ylabel :: string

datatype effect =
    StSetPageConfig string
  | StMarkdown string
  | StHeader string
  | StText string
  | StRadio string "string list"
  | StTextInput string
  | StButton string
  | StSelectbox string "string list"
  | StError string
  | StWrite dataframe
  | StDataframe dataframe
  | StDownloadButton string download_data string string
  | ComponentsHtml string
  | StPyplot figure
  | GenerateContent string
  | ReadCsv string char
  | OpenFile string

type_synonym 'a run = "effect list \<times> (exc + 'a)"

record session_state =
  chat_history :: "(string \<times> string) list option"

record inputs =
  nav :: string
  input_text :: string
  send_button :: bool
  disease_selection :: string
  model_selection :: string
  get_recommendations_button :: bool
  explore_disease_selection :: string

text \<open>
  The world outside the script. \<open>generate_content\<close> is the remote call
  \<^verbatim>\<open>text_model.generate_content\<close> (\<open>Inl m\<close>: it raised an exception whose \<^verbatim>\<open>str\<close>
  is \<open>m\<close>); \<open>files\<close> maps the path of each existing file to its text; \<open>parse_csv\<close>,
  \<open>to_csv\<close> and \<open>plot_bar\<close> are the pandas parser, the pandas writer and the drawing of
  the bars of a table.
\<close>

record env =
  google_api_key :: "string option"
  generate_content :: "string \<Rightarrow> string + gen_response"
  files :: "string \<rightharpoonup> string"
  parse_csv :: "char \<Rightarrow> string \<Rightarrow> exc + dataframe"
  to_csv :: "dataframe \<Rightarrow> string"
  plot_bar :: "dataframe \<Rightarrow> string \<Rightarrow> string \<Rightarrow> exc + (cell \<times> cell) list"

subsection \<open>Sequencing runs\<close>

definition emit :: "effect \<Rightarrow> unit run" where
  "emit e = ([e], Inr ())"

definition bind_run :: "'a run \<Rightarrow> ('a \<Rightarrow> 'b run) \<Rightarrow> 'b run" where
  "bind_run m f =
     (case m of
        (t, Inl e) \<Rightarrow> (t, Inl e)
      | (t, Inr a) \<Rightarrow> (case f a of (t', r) \<Rightarrow> (t @ t', r)))"

definition then_run :: "unit run \<Rightarrow> 'b run \<Rightarrow> 'b run" where
  "then_run m k = bind_run m (\<lambda>_. k)"

definition emit_all :: "effect list \<Rightarrow> unit run" where
  "emit_all es = (es, Inr ())"

subsection \<open>The chat gateway client\<close>

definition communication_error :: "string \<Rightarrow> effect" where
  "communication_error e = StError (''Error communicating with the Google Gemini API: '' @ e)"

text \<open>
  \<^verbatim>\<open>get_gemini_response\<close>: the whole body is inside \<^verbatim>\<open>try\<close>; the handler catches
  every \<^verbatim>\<open>Exception\<close>, shows it with \<^verbatim>\<open>st.error\<close> and returns \<^verbatim>\<open>None\<close>.
\<close>

definition get_gemini_response :: "env \<Rightarrow> string \<Rightarrow> (string option) run" where
  "get_gemini_response env input =
     (if input \<noteq> [] then
        (case generate_content env input of
           Inl e \<Rightarrow> ([GenerateContent input, communication_error e], Inr None)
         | Inr response \<Rightarrow>
             (case response_text response of
                Inl e \<Rightarrow> ([GenerateContent input, communication_error e], Inr None)
              | Inr t \<Rightarrow> ([GenerateContent input], Inr (Some t))))
      else ([], Inr None))"

subsection \<open>Text constants of the page\<close>

fun join_lines :: "string list \<Rightarrow> string" where
  "join_lines [] = []"
| "join_lines [l] = l"
| "join_lines (l # ls) = l @ CHR 0x0A # join_lines ls"

definition style_block :: string where
  "style_block = join_lines
     [[],
      ''    <style>'',
      ''    @import ''
        @ ''url('https://fonts.googleapis.com/css2?family=SF+Pro+Display:wght@400;600;70''
        @ ''0&display=swap');'',
      [],
      ''    body {'',
      ''        font-family: 'SF Pro Display', sans-serif;'',
      ''        background-color: #f0f5f0;'',
      ''    }'',
      [],
      ''    .header {'',
      ''        background-color: #e8f5e9;'',
      ''        padding: 20px;'',
      ''        box-shadow: 0 2px 4px rgba(0, 0, 0, 0.1);'',
      ''        text-align: center;'',
      ''    }'',
      [],
      ''    .header h1 {'',
      ''        font-size: 36px;'',
      ''        color: #2e7d32;'',
      ''        margin: 0;'',
      ''    }'',
      [],
      ''    .sidebar .sidebar-content {'',
      ''        padding: 20px;'',
      ''    }'',
      [],
      ''    .sidebar .sidebar-content h2 {'',
      ''        font-size: 24px;'',
      ''        color: #2e7d32;'',
      ''    }'',
      [],
      ''    .main-content {'',
      ''        padding: 20px;'',
      ''    }'',
      [],
      ''    .main-content h2 {'',
      ''        font-size: 28px;'',
      ''        color: #2e7d32;'',
      ''        text-align: center;'',
      ''    }'',
      [],
      ''    .chatbot-response {'',
      ''        color: white !important;'',
      ''        background-color: #4caf50;'',
      ''        padding: 10px;'',
      ''        border-radius: 10px;'',
      ''        margin-top: 20px;'',
      ''    }'',
      [],
      ''    .smooth-transition {'',
      ''        transition: all 0.3s ease;'',
      ''    }'',
      [],
      ''    .button-primary {'',
      ''        background-color: #2e7d32;'',
      ''        color: #fff;'',
      ''        border: none;'',
      ''        padding: 10px 20px;'',
      ''        border-radius: 5px;'',
      ''        font-size: 16px;'',
      ''        cursor: pointer;'',
      ''    }'',
      [],
      ''    .button-primary:hover {'',
      ''        background-color: #1b5e20;'',
      ''    }'',
      [],
      ''    .download-button {'',
      ''        background-color: #2e7d32;'',
      ''        color: #fff;'',
      ''        border: none;'',
      ''        padding: 10px 20px;'',
      ''        border-radius: 5px;'',
      ''        font-size: 16px;'',
      ''        cursor: pointer;'',
      ''        margin-top: 20px;'',
      ''    }'',
      [],
      ''    .download-button:hover {'',
      ''        background-color: #1b5e20;'',
      ''    }'',
      ''    </style>'',
      []]"

definition header_block :: string where
  "header_block = join_lines
     [[],
      ''    <div class='header'>'',
      ''        <h1>Drug Repurposing Using Knowledge Graphs</h1>'',
      ''    </div>'',
      []]"

definition drug_recommendations_heading :: string where
  "drug_recommendations_heading =
     ''<h3 style='text-align: center; color:#F63366; font-size:28px;'><b>Drug ''
     @ ''Recommendations<b></h3>''"

definition score_note :: string where
  "score_note =
     ''<h3 style='text-align: center; color:#FFFFFF; font-size:18px;'><b>Model ''
     @ ''dependence affects how the values in the 'score' column should be read; ''
     @ ''typically, they cannot be taken directly as a probability.<b></h3>''"

definition clinical_trials_note :: string where
  "clinical_trials_note =
     ''<h3 style='text-align: center; color:#FFFFFF; font-size:18px;'><b>If the ''
     @ ''compound is listed as 'yes' at ClinicalTrials.gov for the target disorders, ''
     @ ''then it is listed as 'no' in the 'in_clinical_trials' column.<b></h3>''"

definition direct_connections_heading :: string where
  "direct_connections_heading =
     ''<h3 style='text-align: center; color:#F63366; font-size:28px;'><b>Direct ''
     @ ''Connections in DRKG for the Target Disease<b></h3>''"

definition direct_connections_note :: string where
  "direct_connections_note =
     ''<h3 style='text-align: center; color:#FFFFFF; font-size:18px;'><b>All of ''
     @ ''the GNBR subgraphs entities that are directly related to the target disease ''
     @ ''are listed below. Red-highlighted compounds are indicated.<b></h3>''"

definition embedding_model_performance_heading :: string where
  "embedding_model_performance_heading =
     ''<h3 style='text-align: center; color:#F63366; font-size:28px;'><b>Embedding ''
     @ ''Model Performance<b></h3>''"

definition model_performance_metrics_heading :: string where
  "model_performance_metrics_heading =
     ''<h3 style='text-align: center; color:#F63366; font-size:28px;'><b>Model ''
     @ ''Performance Metrics<b></h3>''"

definition help_block :: string where
  "help_block = join_lines
     [[],
      ''        <h3 style=''
        @ [CHR 0x22]
        @ ''text-align: center; color:#F63366; font-size:24px;''
        @ [CHR 0x22]
        @ ''>Help & Documentation</h3>'',
      ''        <p style=''
        @ [CHR 0x22]
        @ ''text-align: center;''
        @ [CHR 0x22]
        @ ''>Welcome to the Drug Repurposing Using Knowledge Graphs application. This ''
        @ ''tool helps you explore drug recommendations, knowledge graphs, and model ''
        @ ''performance metrics.</p>'',
      ''        <ul>'',
      ''            <li><b>Get Drugs Recommendations:</b> Select a disease and an ''
        @ ''embedding model to get drug recommendations and view the corresponding ''
        @ ''knowledge graph and performance metrics.</li>'',
      ''            <li><b>Explore Knowledge Graph:</b> Visualize and analyze the ''
        @ ''knowledge graph for the selected disease.</li>'',
      ''            <li><b>Model Performance Metrics:</b> View the performance ''
        @ ''metrics for various embedding models used in drug repurposing.</li>'',
      ''            <li><b>Help:</b> Find documentation and guidance on using the ''
        @ ''application.</li>'',
      ''        </ul>'',
      ''    '']"

subsection \<open>Session state and the chat box\<close>

text \<open>\<^verbatim>\<open>st.session_state['chat_history'].append(turn)\<close>: the lookup raises when the key is absent.\<close>

definition history_append :: "string \<times> string \<Rightarrow> session_state \<Rightarrow> exc + session_state" where
  "history_append turn s =
     (case chat_history s of
        None \<Rightarrow> Inl (KeyError [''chat_history''])
      | Some h \<Rightarrow> Inr (s\<lparr>chat_history := Some (h @ [turn])\<rparr>))"

definition chatbot_response :: "string \<Rightarrow> effect" where
  "chatbot_response response =
     StMarkdown (''<div class='' @ [CHR 0x22] @ ''chatbot-response'' @ [CHR 0x22] @ ''>''
       @ response @ ''</div>'')"

text \<open>
  The body of \<^verbatim>\<open>if st.button("Send"):\<close>. \<^verbatim>\<open>if input_text:\<close> and \<^verbatim>\<open>if response:\<close> are Python
  truth tests: a string is true when it is not empty, \<^verbatim>\<open>None\<close> is false.
\<close>

definition send :: "env \<Rightarrow> string \<Rightarrow> session_state \<Rightarrow> session_state \<times> unit run" where
  "send env input s =
     (if input \<noteq> [] then
        (case get_gemini_response env input of
           (t, Inl e) \<Rightarrow> (s, t, Inl e)
         | (t, Inr None) \<Rightarrow> (s, t @ [StError ''Failed to get a response from the chatbot''], Inr ())
         | (t, Inr (Some response)) \<Rightarrow>
             (if response \<noteq> [] then
                (let t' = t @ [chatbot_response response];
                     s0 = (if chat_history s = None then s\<lparr>chat_history := Some []\<rparr> else s)
                 in case history_append (''You'', input) s0 of
                      Inl e \<Rightarrow> (s0, t', Inl e)
                    | Inr s1 \<Rightarrow>
                        (case history_append (''Bot'', response) s1 of
                           Inl e \<Rightarrow> (s1, t', Inl e)
                         | Inr s2 \<Rightarrow> (s2, t', Inr ())))
              else (s, t @ [StError ''Failed to get a response from the chatbot''], Inr ())))
      else (s, [StError ''Please enter a question.''], Inr ()))"

definition nav_options :: "string list" where
  "nav_options =
     [''Get Drugs Recommendations'', ''Explore Knowledge Graph'',
      ''Model Performance Metrics'', ''Help'']"

text \<open>The elements of the side bar, lines 136 to 144.\<close>

definition sidebar_widgets :: "effect list" where
  "sidebar_widgets =
     [StHeader ''I want to:'', StRadio [] nav_options, StText [], StText [],
      StHeader ''Chat with Us!'', StTextInput ''Enter your question here:'',
      StButton ''Send'']"

definition sidebar :: "env \<Rightarrow> inputs \<Rightarrow> session_state \<Rightarrow> session_state \<times> unit run" where
  "sidebar env inp s =
     (if send_button inp then
        (case send env (input_text inp) s of (s', t, r) \<Rightarrow> (s', sidebar_widgets @ t, r))
      else (s, sidebar_widgets, Inr ()))"

subsection \<open>Artifacts: files and tables\<close>

definition pd_read_csv :: "env \<Rightarrow> string \<Rightarrow> char \<Rightarrow> dataframe run" where
  "pd_read_csv env path sep =
     (case files env path of
        None \<Rightarrow> ([ReadCsv path sep], Inl (FileNotFoundError path))
      | Some txt \<Rightarrow> ([ReadCsv path sep], parse_csv env sep txt))"

definition open_file :: "env \<Rightarrow> string \<Rightarrow> file_handle run" where
  "open_file env path =
     (case files env path of
        None \<Rightarrow> ([OpenFile path], Inl (FileNotFoundError path))
      | Some txt \<Rightarrow> ([OpenFile path], Inr \<lparr>content = txt, pos = 0\<rparr>))"

text \<open>\<^verbatim>\<open>f.read()\<close> returns the text from the read position on and leaves the position at the end.\<close>

definition file_read :: "file_handle \<Rightarrow> string \<times> file_handle" where
  "file_read f = (drop (pos f) (content f), f\<lparr>pos := length (content f)\<rparr>)"

text \<open>
  What \<^verbatim>\<open>st.download_button\<close> offers for its \<^verbatim>\<open>data\<close> argument: a string as it is; a text
  file object is read from its current position (Streamlit does not rewind it).
\<close>

definition marshall_file :: "download_data \<Rightarrow> string" where
  "marshall_file d = (case d of DataStr s \<Rightarrow> s | DataFile f \<Rightarrow> fst (file_read f))"

text \<open>The value of a row in a named column; a row shorter than the header is padded with the missing value.\<close>

definition cell_at :: "string list \<Rightarrow> cell list \<Rightarrow> string \<Rightarrow> cell" where
  "cell_at cols row c = (case map_of (zip cols row) c of None \<Rightarrow> NaN | Some v \<Rightarrow> v)"

text \<open>\<^verbatim>\<open>df[c]\<close>: the column as a series, \<^verbatim>\<open>KeyError\<close> when the table has no such column.\<close>

definition getitem_column :: "dataframe \<Rightarrow> string \<Rightarrow> exc + cell list" where
  "getitem_column df c =
     (if c \<in> set (columns df) then Inr (map (\<lambda>row. cell_at (columns df) row c) (rows df))
      else Inl (KeyError [c]))"

text \<open>\<^verbatim>\<open>series == key\<close>, element by element; only a string cell can equal a string.\<close>

definition series_eq :: "cell list \<Rightarrow> string \<Rightarrow> bool list" where
  "series_eq col key = map (\<lambda>v. v = Str key) col"

text \<open>\<^verbatim>\<open>df[mask]\<close>: the rows whose mask entry is true, in the table's order.\<close>

definition getitem_mask :: "dataframe \<Rightarrow> bool list \<Rightarrow> dataframe" where
  "getitem_mask df selected = df\<lparr>rows := map fst (filter snd (zip (rows df) selected))\<rparr>"

text \<open>\<^verbatim>\<open>df[[c1, c2, ...]]\<close>: the named columns, \<^verbatim>\<open>KeyError\<close> when one is not in the table.\<close>

definition getitem_columns :: "dataframe \<Rightarrow> string list \<Rightarrow> exc + dataframe" where
  "getitem_columns df cs =
     (let missing = filter (\<lambda>c. c \<notin> set (columns df)) cs
      in if missing = [] then
           Inr \<lparr>columns = cs, rows = map (\<lambda>row. map (cell_at (columns df) row) cs) (rows df)\<rparr>
         else Inl (KeyError missing))"

text \<open>
  \<^verbatim>\<open>df.plot(kind='bar', x=..., y=...)\<close>. A table with no rows has no bar to place: where
  the library has not raised already, pandas raises \<^verbatim>\<open>IndexError\<close> when it reads the
  position of the first bar. A table with rows is drawn by the library.
\<close>

definition df_plot_bar :: "env \<Rightarrow> dataframe \<Rightarrow> string \<Rightarrow> string \<Rightarrow> exc + (cell \<times> cell) list" where
  "df_plot_bar env df x y =
     (if rows df = [] then
        (case plot_bar env df x y of
           Inl e \<Rightarrow> Inl e
         | Inr _ \<Rightarrow> Inl (IndexError ''index 0 is out of bounds for axis 0 with size 0''))
      else plot_bar env df x y)"

definition lift :: "exc + 'a \<Rightarrow> 'a run" where
  "lift r = ([], r)"

subsection \<open>The pages\<close>

definition diseases :: "string list" where
  "diseases =
     [''Dengue'', ''Chagas'', ''Malaria'', ''Yellow Fever'', ''Leishmaniasis'',
      ''Filariasis'', ''Schistosomiasis'']"

definition models :: "string list" where
  "models = [''TransE'', ''TransR'', ''TransH'', ''UM'', ''DistMult'', ''RESCAL'', ''ERMLP'']"

definition p_title :: "string \<Rightarrow> effect" where
  "p_title t =
     StMarkdown (''<h2 class='' @ [CHR 0x22] @ ''smooth-transition'' @ [CHR 0x22] @ ''>''
       @ t @ ''</h2>'')"

definition div_open :: string where
  "div_open = ''<div style='text-align: center;'>''"

definition div_close :: string where
  "div_close = ''</div>''"

text \<open>Line 172: \<^verbatim>\<open>final_selection = disease_selection + model_selection\<close>.\<close>

definition final_selection :: "string \<Rightarrow> string \<Rightarrow> string" where
  "final_selection disease model = disease @ model"

definition ranking_path :: "string \<Rightarrow> string" where
  "ranking_path key = ''embedding_models/'' @ key @ ''.csv''"

definition graph_path :: "string \<Rightarrow> string" where
  "graph_path disease = ''graphs/knowledge_graph_'' @ disease @ ''.html''"

text \<open>Line 211: \<^verbatim>\<open>performance_file[performance_file['final_selection'] == final_selection]\<close>.\<close>

definition performance_filter :: "dataframe \<Rightarrow> string \<Rightarrow> exc + dataframe" where
  "performance_filter performance_file key =
     (case getitem_column performance_file ''final_selection'' of
        Inl e \<Rightarrow> Inl e
      | Inr col \<Rightarrow> Inr (getitem_mask performance_file (series_eq col key)))"

text \<open>Lines 172 to 187: the ranking table of the selection and its download.\<close>

definition drug_recommendations :: "env \<Rightarrow> string \<Rightarrow> unit run" where
  "drug_recommendations env key =
     bind_run (pd_read_csv env (ranking_path key) CHR '','') (\<lambda>ranking_file.
       emit_all
         [StMarkdown drug_recommendations_heading,
          StWrite ranking_file,
          StMarkdown score_note,
          StMarkdown clinical_trials_note,
          StDownloadButton ''Download Recommendations'' (DataStr (to_csv env ranking_file))
            (key @ ''_recommendations.csv'') ''text/csv''])"

text \<open>
  Lines 194 to 207, and the same statements again at lines 233 to 246: the graph
  document is opened, read and embedded; the download button is given the file
  object \<^verbatim>\<open>HtmlFile\<close>, after the read.
\<close>

definition knowledge_graph_viewer :: "env \<Rightarrow> string \<Rightarrow> unit run" where
  "knowledge_graph_viewer env disease =
     then_run (emit (StMarkdown div_open))
       (bind_run (open_file env (graph_path disease)) (\<lambda>HtmlFile.
          (case file_read HtmlFile of
             (source_code, HtmlFile') \<Rightarrow>
               emit_all
                 [ComponentsHtml source_code,
                  StMarkdown div_close,
                  StDownloadButton ''Download Knowledge Graph'' (DataFile HtmlFile')
                    (disease @ ''_knowledge_graph.html'') ''text/html''])))"

text \<open>Lines 209 to 222: the performance rows of the selection, as a table and as a bar chart.\<close>

definition model_performance :: "env \<Rightarrow> string \<Rightarrow> unit run" where
  "model_performance env key =
     bind_run (pd_read_csv env ''embedding_models/performance_metrics.csv'' CHR '';'')
       (\<lambda>performance_file.
     bind_run (lift (performance_filter performance_file key)) (\<lambda>filtered_data.
     then_run (emit (StMarkdown embedding_model_performance_heading))
       (bind_run (lift (getitem_columns filtered_data [''Measure'', ''Value''])) (\<lambda>shown.
        then_run (emit (StDataframe shown))
          (bind_run (lift (df_plot_bar env filtered_data ''Measure'' ''Value'')) (\<lambda>plotted.
             emit (StPyplot \<lparr>bars = plotted, title = ''Performance Metrics'',
               xlabel = ''Measure'', ylabel = ''Value''\<rparr>)))))))"

text \<open>The body of \<^verbatim>\<open>if st.button("Get Recommendations"):\<close>, lines 171 to 222.\<close>

definition get_recommendations :: "env \<Rightarrow> string \<Rightarrow> string \<Rightarrow> unit run" where
  "get_recommendations env disease model =
     (let key = final_selection disease model in
      then_run (drug_recommendations env key)
        (then_run (emit_all
           [StMarkdown direct_connections_heading, StMarkdown direct_connections_note])
        (then_run (knowledge_graph_viewer env disease)
           (model_performance env key))))"

text \<open>The branch \<^verbatim>\<open>if nav == 'Get Drugs Recommendations':\<close>.\<close>

definition page_get_drugs_recommendations :: "env \<Rightarrow> inputs \<Rightarrow> unit run" where
  "page_get_drugs_recommendations env inp =
     then_run (emit_all
       [StText [], p_title ''Get Drug Recommendations'', StText [],
        StSelectbox ''Select a disease'' diseases,
        StSelectbox ''Select an embedding model'' models,
        StButton ''Get Recommendations''])
       (if get_recommendations_button inp then
          get_recommendations env (disease_selection inp) (model_selection inp)
        else emit_all [])"

text \<open>The branch \<^verbatim>\<open>if nav == 'Explore Knowledge Graph':\<close>.\<close>

definition page_explore_knowledge_graph :: "env \<Rightarrow> inputs \<Rightarrow> unit run" where
  "page_explore_knowledge_graph env inp =
     then_run (emit_all
       [StText [], p_title ''Explore Knowledge Graph'', StText [],
        StSelectbox ''Select a disease for Knowledge Graph Exploration'' diseases])
       (knowledge_graph_viewer env (explore_disease_selection inp))"

text \<open>The branch \<^verbatim>\<open>if nav == 'Model Performance Metrics':\<close>.\<close>

definition page_model_performance_metrics :: "env \<Rightarrow> unit run" where
  "page_model_performance_metrics env =
     then_run (emit_all [StText [], StText []])
    (bind_run (pd_read_csv env ''embedding_models/performance_metrics.csv'' CHR '';'')
       (\<lambda>performance_file.
     then_run (emit_all
       [StMarkdown model_performance_metrics_heading, StDataframe performance_file])
    (bind_run (lift (df_plot_bar env performance_file ''final_selection'' ''Value''))
       (\<lambda>plotted.
     emit (StPyplot \<lparr>bars = plotted, title = ''Performance Metrics of Embedding Models'',
       xlabel = ''Embedding Model'', ylabel = ''Value''\<rparr>)))))"

text \<open>The branch \<^verbatim>\<open>if nav == 'Help':\<close>.\<close>

definition page_help :: "unit run" where
  "page_help = emit_all [StText [], StText [], StMarkdown help_block]"

definition when_run :: "bool \<Rightarrow> unit run \<Rightarrow> unit run" where
  "when_run b m = (if b then m else emit_all [])"

text \<open>The four \<^verbatim>\<open>if nav == ...\<close> statements, one after the other.\<close>

definition pages :: "env \<Rightarrow> inputs \<Rightarrow> unit run" where
  "pages env inp =
     then_run (when_run (nav inp = ''Get Drugs Recommendations'')
       (page_get_drugs_recommendations env inp))
    (then_run (when_run (nav inp = ''Explore Knowledge Graph'')
       (page_explore_knowledge_graph env inp))
    (then_run (when_run (nav inp = ''Model Performance Metrics'')
       (page_model_performance_metrics env))
      (when_run (nav inp = ''Help'') page_help)))"

text \<open>
  One run of the script: the start-up check of the API key, the page frame, the
  side bar with the chat box, then the page chosen by \<open>nav\<close>. The session state the
  run leaves behind is the one the side bar produced, also when a page raises.
\<close>

definition api_key_set :: "env \<Rightarrow> bool" where
  "api_key_set env = (google_api_key env \<noteq> None \<and> google_api_key env \<noteq> Some [])"

definition page_frame :: "effect list" where
  "page_frame =
     [StSetPageConfig ''Drug Repurposing Using Knowledge Graphs'',
      StMarkdown style_block, StMarkdown header_block]"

definition app :: "env \<Rightarrow> inputs \<Rightarrow> session_state \<Rightarrow> session_state \<times> unit run" where
  "app env inp s =
     (if \<not> api_key_set env then
        (s, [], Inl (ValueError ''GOOGLE_API_KEY is not set in the environment variables''))
      else
        (case sidebar env inp s of
           (s', t, Inl e) \<Rightarrow> (s', page_frame @ t, Inl e)
         | (s', t, Inr _) \<Rightarrow>
             (case pages env inp of (t', r) \<Rightarrow> (s', page_frame @ t @ t', r))))"

text \<open>A session: the script runs once per interaction, each run against the world of its moment.\<close>

fun run_session :: "session_state \<Rightarrow> (env \<times> inputs) list \<Rightarrow> session_state" where
  "run_session s [] = s"
| "run_session s ((env, inp) # rest) = run_session (fst (app env inp s)) rest"

definition chat_log :: "session_state \<Rightarrow> (string \<times> string) list" where
  "chat_log s = (case chat_history s of None \<Rightarrow> [] | Some h \<Rightarrow> h)"

subsection \<open>Notions used to state the properties\<close>

text \<open>The prompts sent to the gateway during a run, in order.\<close>

definition gateway_calls :: "effect list \<Rightarrow> string list" where
  "gateway_calls t = concat (map (\<lambda>e. case e of GenerateContent p \<Rightarrow> [p] | _ \<Rightarrow> []) t)"

text \<open>
  The gateway call fails with an exception whose \<^verbatim>\<open>str\<close> is \<open>e\<close>: either the remote call
  raises it or reading the response's text does.
\<close>

definition gateway_raises :: "env \<Rightarrow> string \<Rightarrow> string \<Rightarrow> bool" where
  "gateway_raises env input e =
     (case generate_content env input of
        Inl m \<Rightarrow> m = e
      | Inr response \<Rightarrow> response_text response = Inl e)"

text \<open>The text the gateway yields for a prompt, if it yields one.\<close>

definition gateway_reply :: "env \<Rightarrow> string \<Rightarrow> string option" where
  "gateway_reply env input =
     (case generate_content env input of
        Inl _ \<Rightarrow> None
      | Inr response \<Rightarrow> (case response_text response of Inl _ \<Rightarrow> None | Inr t \<Rightarrow> Some t))"

text \<open>
  A successful chat interaction: the script starts, Send is pressed with a question,
  and the gateway yields a text that is not empty.
\<close>

definition successful_chat :: "env \<times> inputs \<Rightarrow> bool" where
  "successful_chat x =
     (case x of (env, inp) \<Rightarrow>
        api_key_set env \<and> send_button inp \<and> input_text inp \<noteq> [] \<and>
        (case gateway_reply env (input_text inp) of None \<Rightarrow> False | Some r \<Rightarrow> r \<noteq> []))"

text \<open>The two turns of an interaction: the user's question, then the bot's reply.\<close>

definition chat_pair :: "env \<times> inputs \<Rightarrow> (string \<times> string) list" where
  "chat_pair x =
     (case x of (env, inp) \<Rightarrow>
        (case gateway_reply env (input_text inp) of
           None \<Rightarrow> []
         | Some r \<Rightarrow> [(''You'', input_text inp), (''Bot'', r)]))"

text \<open>The paths handed to \<^verbatim>\<open>open\<close> during a run, and the documents embedded in the page.\<close>

definition opened_files :: "effect list \<Rightarrow> string list" where
  "opened_files t = concat (map (\<lambda>e. case e of OpenFile p \<Rightarrow> [p] | _ \<Rightarrow> []) t)"

definition embedded_documents :: "effect list \<Rightarrow> string list" where
  "embedded_documents t = concat (map (\<lambda>e. case e of ComponentsHtml d \<Rightarrow> [d] | _ \<Rightarrow> []) t)"

text \<open>The downloads a run offers: the file name and the content behind each download button.\<close>

definition offered_downloads :: "effect list \<Rightarrow> (string \<times> string) list" where
  "offered_downloads t =
     concat (map (\<lambda>e. case e of StDownloadButton l d f m \<Rightarrow> [(f, marshall_file d)] | _ \<Rightarrow> []) t)"

text \<open>The value of a row of the performance table in the column \<^verbatim>\<open>final_selection\<close>.\<close>

definition selection_of :: "dataframe \<Rightarrow> cell list \<Rightarrow> cell" where
  "selection_of df row = cell_at (columns df) row ''final_selection''"

subsection \<open>A sample world\<close>

text \<open>
  A small world for evaluating the script: the Dengue/TransE ranking, a performance
  table with rows for two selections, the Dengue graph document, and a gateway that
  answers every prompt but \<open>''fail''\<close>.
\<close>

definition sample_ranking :: dataframe where
  "sample_ranking =
     \<lparr>columns = [''drug'', ''score'', ''in_clinical_trials''],
      rows = [[Str ''Compound::DB00001'', Num 1, Str ''no'']]\<rparr>"

definition sample_performance :: dataframe where
  "sample_performance =
     \<lparr>columns = [''final_selection'', ''Measure'', ''Value''],
      rows = [[Str ''DengueTransE'', Str ''hits@10'', Num 1],
              [Str ''ChagasUM'', Str ''hits@10'', Num 2],
              [Str ''DengueTransE'', Str ''MRR'', Num 3]]\<rparr>"

definition sample_env :: env where
  "sample_env =
     \<lparr>google_api_key = Some ''secret'',
      generate_content =
        (\<lambda>q. if q = ''fail'' then Inl ''quota exceeded'' else Inr (Response (Inr ''Hello''))),
      files =
        [''embedding_models/DengueTransE.csv'' \<mapsto> ''drug,score,in_clinical_trials'',
         ''embedding_models/performance_metrics.csv'' \<mapsto> ''final_selection;Measure;Value'',
         ''graphs/knowledge_graph_Dengue.html'' \<mapsto> ''<html></html>''],
      parse_csv = (\<lambda>sep txt. if sep = CHR '';'' then Inr sample_performance else Inr sample_ranking),
      to_csv = (\<lambda>df. ''drug,score,in_clinical_trials''),
      plot_bar =
        (\<lambda>df x y. Inr (map (\<lambda>row. (cell_at (columns df) row x, cell_at (columns df) row y))
           (rows df)))\<rparr>"

definition sample_inputs :: inputs where
  "sample_inputs =
     \<lparr>nav = ''Help'', input_text = [], send_button = False,
      disease_selection = ''Dengue'', model_selection = ''TransE'',
      get_recommendations_button = False, explore_disease_selection = ''Dengue''\<rparr>"

definition ask :: "string \<Rightarrow> inputs" where
  "ask q = sample_inputs\<lparr>input_text := q, send_button := True\<rparr>"

definition fresh_session :: session_state where
  "fresh_session = \<lparr>chat_history = None\<rparr>"

definition recommend :: "string \<Rightarrow> string \<Rightarrow> inputs" where
  "recommend disease model =
     sample_inputs\<lparr>nav := ''Get Drugs Recommendations'', disease_selection := disease,
       model_selection := model, get_recommendations_button := True\<rparr>"

definition explore :: "string \<Rightarrow> inputs" where
  "explore disease =
     sample_inputs\<lparr>nav := ''Explore Knowledge Graph'', explore_disease_selection := disease\<rparr>"

text \<open>The same world with a performance table that has no row for Dengue and TransE.\<close>

definition sparse_performance :: dataframe where
  "sparse_performance =
     \<lparr>columns = [''final_selection'', ''Measure'', ''Value''],
      rows = [[Str ''ChagasUM'', Str ''hits@10'', Num 2]]\<rparr>"

definition sparse_env :: env where
  "sparse_env =
     sample_env\<lparr>parse_csv :=
       (\<lambda>sep txt. if sep = CHR '';'' then Inr sparse_performance else Inr sample_ranking)\<rparr>"

text \<open>The same world with one file removed.\<close>

definition without_file :: "string \<Rightarrow> env \<Rightarrow> env" where
  "without_file path env = env\<lparr>files := (files env)(path := None)\<rparr>"

section \<open>Properties\<close>

subsection \<open>Runs and their traces\<close>

lemma gateway_calls_Nil: "gateway_calls [] = []"
  by (simp add: gateway_calls_def)

lemma gateway_calls_Cons:
  "gateway_calls (e # t) = (case e of GenerateContent p \<Rightarrow> [p] | _ \<Rightarrow> []) @ gateway_calls t"
  by (simp add: gateway_calls_def)

lemma gateway_calls_append: "gateway_calls (a @ b) = gateway_calls a @ gateway_calls b"
  by (simp add: gateway_calls_def)

lemmas gateway_calls_simps = gateway_calls_Nil gateway_calls_Cons gateway_calls_append

lemma gateway_calls_bind:
  "gateway_calls (fst m) = [] \<Longrightarrow> (\<And>a. gateway_calls (fst (f a)) = []) \<Longrightarrow>
   gateway_calls (fst (bind_run m f)) = []"
proof (cases m)
  case (Pair t r)
  assume m: "gateway_calls (fst m) = []" and f: "\<And>a. gateway_calls (fst (f a)) = []"
  show ?thesis
  proof (cases r)
    case (Inl e)
    with Pair m show ?thesis by (simp add: bind_run_def)
  next
    case (Inr a)
    with Pair m f [of a] show ?thesis
      by (cases "f a") (simp add: bind_run_def gateway_calls_append)
  qed
qed

lemma gateway_calls_then:
  "gateway_calls (fst m) = [] \<Longrightarrow> gateway_calls (fst k) = [] \<Longrightarrow>
   gateway_calls (fst (then_run m k)) = []"
  by (simp add: then_run_def gateway_calls_bind)

lemma gateway_calls_pd_read_csv: "gateway_calls (fst (pd_read_csv env p c)) = []"
  by (simp add: pd_read_csv_def gateway_calls_simps split: option.splits)

lemma gateway_calls_open_file: "gateway_calls (fst (open_file env p)) = []"
  by (simp add: open_file_def gateway_calls_simps split: option.splits)

lemma gateway_calls_lift: "gateway_calls (fst (lift r)) = []"
  by (simp add: lift_def gateway_calls_simps)

lemma gateway_calls_drug_recommendations: "gateway_calls (fst (drug_recommendations env key)) = []"
  unfolding drug_recommendations_def
  by (rule gateway_calls_bind) (simp_all add: gateway_calls_pd_read_csv emit_all_def gateway_calls_simps)

lemma gateway_calls_knowledge_graph_viewer: "gateway_calls (fst (knowledge_graph_viewer env d)) = []"
  unfolding knowledge_graph_viewer_def
  apply (rule gateway_calls_then)
   apply (simp add: emit_def gateway_calls_simps)
  apply (rule gateway_calls_bind)
   apply (simp add: gateway_calls_open_file)
  apply (simp add: emit_all_def gateway_calls_simps split: prod.splits)
  done

lemma gateway_calls_model_performance: "gateway_calls (fst (model_performance env key)) = []"
  unfolding model_performance_def
  by (intro gateway_calls_bind gateway_calls_then gateway_calls_pd_read_csv gateway_calls_lift)
     (simp_all add: emit_def gateway_calls_simps)

lemma gateway_calls_emit_all: "gateway_calls es = [] \<Longrightarrow> gateway_calls (fst (emit_all es)) = []"
  by (simp add: emit_all_def)

lemma gateway_calls_when:
  "gateway_calls (fst m) = [] \<Longrightarrow> gateway_calls (fst (when_run b m)) = []"
  by (simp add: when_run_def emit_all_def gateway_calls_Nil)

lemma gateway_calls_get_recommendations:
  "gateway_calls (fst (get_recommendations env d m)) = []"
  unfolding get_recommendations_def Let_def
  by (intro gateway_calls_then gateway_calls_drug_recommendations
        gateway_calls_knowledge_graph_viewer gateway_calls_model_performance
        gateway_calls_emit_all)
     (simp add: gateway_calls_simps)

lemma gateway_calls_page_get_drugs_recommendations:
  "gateway_calls (fst (page_get_drugs_recommendations env inp)) = []"
  unfolding page_get_drugs_recommendations_def
  by (rule gateway_calls_then)
     (simp_all add: gateway_calls_simps p_title_def emit_all_def gateway_calls_get_recommendations)

lemma gateway_calls_page_explore_knowledge_graph:
  "gateway_calls (fst (page_explore_knowledge_graph env inp)) = []"
  unfolding page_explore_knowledge_graph_def
  by (rule gateway_calls_then)
     (simp_all add: gateway_calls_simps p_title_def emit_all_def gateway_calls_knowledge_graph_viewer)

lemma gateway_calls_page_model_performance_metrics:
  "gateway_calls (fst (page_model_performance_metrics env)) = []"
  unfolding page_model_performance_metrics_def
  by (intro gateway_calls_bind gateway_calls_then gateway_calls_pd_read_csv gateway_calls_lift
        gateway_calls_emit_all)
     (simp_all add: emit_def gateway_calls_simps)

lemma gateway_calls_page_help: "gateway_calls (fst page_help) = []"
  by (simp add: page_help_def emit_all_def gateway_calls_simps)

lemma gateway_calls_pages: "gateway_calls (fst (pages env inp)) = []"
  unfolding pages_def
  by (intro gateway_calls_then gateway_calls_when gateway_calls_page_get_drugs_recommendations
        gateway_calls_page_explore_knowledge_graph gateway_calls_page_model_performance_metrics
        gateway_calls_page_help)

subsection \<open>The chat log\<close>

lemma send_log:
  "chat_log (fst (send env input s)) =
     chat_log s @
       (if input \<noteq> [] \<and> (case gateway_reply env input of None \<Rightarrow> False | Some r \<Rightarrow> r \<noteq> [])
        then (case gateway_reply env input of None \<Rightarrow> [] | Some r \<Rightarrow> [(''You'', input), (''Bot'', r)])
        else [])"
  by (auto simp: send_def get_gemini_response_def history_append_def gateway_reply_def
        chat_log_def Let_def split: sum.splits option.splits)

lemma app_fst: "fst (app env inp s) = (if api_key_set env then fst (sidebar env inp s) else s)"
  by (auto simp: app_def split: prod.splits sum.splits)

lemma sidebar_fst:
  "fst (sidebar env inp s) = (if send_button inp then fst (send env (input_text inp) s) else s)"
  by (auto simp: sidebar_def split: prod.splits)

lemma app_log:
  "chat_log (fst (app env inp s)) =
     chat_log s @ (if successful_chat (env, inp) then chat_pair (env, inp) else [])"
  by (simp add: app_fst sidebar_fst send_log successful_chat_def chat_pair_def)

lemma run_session_log:
  "chat_log (run_session s xs) = chat_log s @ concat (map chat_pair (filter successful_chat xs))"
proof (induction xs arbitrary: s)
  case Nil
  show ?case by simp
next
  case (Cons x xs)
  obtain env inp where x: "x = (env, inp)" by (cases x)
  show ?case
    unfolding x by (simp add: Cons.IH app_log)
qed

lemma chat_pair_length: "successful_chat x \<Longrightarrow> length (chat_pair x) = 2"
  by (cases x) (auto simp: successful_chat_def chat_pair_def split: option.splits)

lemma chat_pair_speakers: "successful_chat x \<Longrightarrow> map fst (chat_pair x) = [''You'', ''Bot'']"
  by (cases x) (auto simp: successful_chat_def chat_pair_def split: option.splits)

lemma length_concat_pairs:
  "length (concat (map chat_pair (filter successful_chat xs))) = 2 * length (filter successful_chat xs)"
  by (induction xs) (simp_all add: chat_pair_length)

lemma speakers_concat_pairs:
  "map fst (concat (map chat_pair (filter successful_chat xs)))
     = concat (replicate (length (filter successful_chat xs)) [''You'', ''Bot''])"
  by (induction xs) (simp_all add: chat_pair_speakers)

text \<open>
  Claim C3. In a session that starts without a chat history, after any sequence
  of runs the chat log is the concatenation, in order, of the (user, bot) pairs of
  the successful chat interactions: with N of them it has exactly 2N entries, and
  the speakers alternate You, Bot.
\<close>

theorem chat_log_after_session:
  assumes "chat_history s = None"
  shows "chat_log (run_session s xs) = concat (map chat_pair (filter successful_chat xs))
    \<and> length (chat_log (run_session s xs)) = 2 * length (filter successful_chat xs)
    \<and> map fst (chat_log (run_session s xs))
        = concat (replicate (length (filter successful_chat xs)) [''You'', ''Bot''])"
proof -
  have "chat_log s = []" using assms by (simp add: chat_log_def)
  then have "chat_log (run_session s xs) = concat (map chat_pair (filter successful_chat xs))"
    by (simp add: run_session_log)
  then show ?thesis
    by (simp add: length_concat_pairs speakers_concat_pairs)
qed

lemma successful_chat_sample [simp]:
  "successful_chat (sample_env, ask q) = (q \<noteq> [] \<and> q \<noteq> ''fail'')"
  by (simp add: successful_chat_def api_key_set_def sample_env_def ask_def sample_inputs_def
        gateway_reply_def)

lemma chat_pair_sample [simp]:
  "q \<noteq> ''fail'' \<Longrightarrow> chat_pair (sample_env, ask q) = [(''You'', q), (''Bot'', ''Hello'')]"
  by (simp add: chat_pair_def sample_env_def ask_def sample_inputs_def gateway_reply_def)

theorem chat_log_after_session_witness:
  "chat_history fresh_session = None
   \<and> chat_log (run_session fresh_session
        [(sample_env, ask ''hi''), (sample_env, ask ''fail''), (sample_env, ask []),
         (sample_env, ask ''more'')])
     = [(''You'', ''hi''), (''Bot'', ''Hello''), (''You'', ''more''), (''Bot'', ''Hello'')]"
  using chat_log_after_session [of fresh_session
        "[(sample_env, ask ''hi''), (sample_env, ask ''fail''), (sample_env, ask []),
         (sample_env, ask ''more'')]"]
  by (simp add: fresh_session_def)

text \<open>
  Claim C6. When the gateway call raises for a question that is not empty,
  \<^verbatim>\<open>get_gemini_response\<close> shows the communication error and returns \<^verbatim>\<open>None\<close> as a normal
  result; the Send handler then shows the failure message and leaves the session as
  it was; the run goes on to the selected page, and its outcome is the page's.
\<close>

theorem gateway_exception_is_caught:
  assumes "input \<noteq> []" and "gateway_raises env input e"
  shows "get_gemini_response env input = ([GenerateContent input, communication_error e], Inr None)
    \<and> send env input s =
        (s, [GenerateContent input, communication_error e,
             StError ''Failed to get a response from the chatbot''], Inr ())
    \<and> (api_key_set env \<longrightarrow> send_button inp \<longrightarrow> input_text inp = input \<longrightarrow>
        app env inp s =
          (s, page_frame @ sidebar_widgets @
                [GenerateContent input, communication_error e,
                 StError ''Failed to get a response from the chatbot''] @ fst (pages env inp),
           snd (pages env inp)))"
proof -
  have g: "get_gemini_response env input = ([GenerateContent input, communication_error e], Inr None)"
    using assms by (auto simp: get_gemini_response_def gateway_raises_def split: sum.splits)
  have s: "send env input s =
        (s, [GenerateContent input, communication_error e,
             StError ''Failed to get a response from the chatbot''], Inr ())"
    using assms(1) by (simp add: send_def g)
  show ?thesis
    using g s by (simp add: app_def sidebar_def split: prod.splits)
qed

theorem gateway_exception_is_caught_witness:
  "''fail'' \<noteq> [] \<and> gateway_raises sample_env ''fail'' ''quota exceeded''
   \<and> get_gemini_response sample_env ''fail''
      = ([GenerateContent ''fail'',
          StError ''Error communicating with the Google Gemini API: quota exceeded''], Inr None)
   \<and> snd (snd (app sample_env (ask ''fail'') fresh_session)) = Inr ()
   \<and> fst (app sample_env (ask ''fail'') fresh_session) = fresh_session"
proof -
  have r: "gateway_raises sample_env ''fail'' ''quota exceeded''"
    by (simp add: gateway_raises_def sample_env_def)
  have k: "api_key_set sample_env" by (simp add: api_key_set_def sample_env_def)
  have p: "snd (pages sample_env (ask ''fail'')) = Inr ()"
    by (simp add: pages_def when_run_def ask_def sample_inputs_def page_help_def then_run_def
          bind_run_def emit_all_def)
  show ?thesis
    using gateway_exception_is_caught [of "''fail''" sample_env "''quota exceeded''"
        fresh_session "ask ''fail''"] r k p
    by (simp add: communication_error_def ask_def sample_inputs_def)
qed

text \<open>
  Claim C7. When Send is pressed with an empty input, the side bar shows
  ``Please enter a question.'', and the whole run sends no prompt to the gateway.
\<close>

theorem empty_input_makes_no_gateway_call:
  assumes "send_button inp" and "input_text inp = []"
  shows "sidebar env inp s = (s, sidebar_widgets @ [StError ''Please enter a question.''], Inr ())
    \<and> gateway_calls (fst (snd (app env inp s))) = []
    \<and> (api_key_set env \<longrightarrow> StError ''Please enter a question.'' \<in> set (fst (snd (app env inp s))))"
proof -
  have sb: "sidebar env inp s = (s, sidebar_widgets @ [StError ''Please enter a question.''], Inr ())"
    using assms by (simp add: sidebar_def send_def)
  have w: "gateway_calls sidebar_widgets = []"
    by (simp add: sidebar_widgets_def gateway_calls_simps)
  have f: "gateway_calls page_frame = []"
    by (simp add: page_frame_def gateway_calls_simps)
  have "gateway_calls (fst (snd (app env inp s))) = []"
    using gateway_calls_pages [of env inp]
    by (cases "pages env inp") (simp add: app_def sb w f gateway_calls_simps)
  moreover have "api_key_set env \<longrightarrow> StError ''Please enter a question.'' \<in> set (fst (snd (app env inp s)))"
    by (cases "pages env inp") (simp add: app_def sb)
  ultimately show ?thesis using sb by simp
qed

theorem empty_input_makes_no_gateway_call_witness:
  "send_button (ask []) \<and> input_text (ask []) = []
   \<and> gateway_calls (fst (snd (app sample_env (ask []) fresh_session))) = []
   \<and> StError ''Please enter a question.'' \<in> set (fst (snd (app sample_env (ask []) fresh_session)))"
proof -
  have k: "api_key_set sample_env" by (simp add: api_key_set_def sample_env_def)
  show ?thesis
    using empty_input_makes_no_gateway_call [of "ask []" sample_env fresh_session] k
    by (simp add: ask_def sample_inputs_def)
qed

text \<open>
  Claim C10. A run whose input is empty, or whose gateway call yields \<^verbatim>\<open>None\<close>,
  leaves the session state as it was. Every run either leaves the session state
  unchanged or appends the complete pair, the question and then the reply the
  gateway gave: a question alone is never left in the log.
\<close>

theorem failed_chat_leaves_log_unchanged:
  "(input_text inp = [] \<or> snd (get_gemini_response env (input_text inp)) = Inr None
      \<longrightarrow> fst (app env inp s) = s)
   \<and> (fst (app env inp s) = s
       \<or> (\<exists>r. snd (get_gemini_response env (input_text inp)) = Inr (Some r)
             \<and> chat_log (fst (app env inp s))
                 = chat_log s @ [(''You'', input_text inp), (''Bot'', r)]))"
  by (auto simp: app_fst sidebar_fst send_def get_gemini_response_def history_append_def
        chat_log_def Let_def split: sum.splits option.splits)

theorem failed_chat_leaves_log_unchanged_witness:
  "input_text (ask []) = []
   \<and> fst (app sample_env (ask []) fresh_session) = fresh_session
   \<and> snd (get_gemini_response sample_env (input_text (ask ''fail''))) = Inr None
   \<and> fst (app sample_env (ask ''fail'') fresh_session) = fresh_session"
proof -
  have n: "snd (get_gemini_response sample_env (input_text (ask ''fail''))) = Inr None"
    by (simp add: get_gemini_response_def sample_env_def ask_def sample_inputs_def)
  show ?thesis
    using failed_chat_leaves_log_unchanged [of "ask []" sample_env fresh_session]
      failed_chat_leaves_log_unchanged [of "ask ''fail''" sample_env fresh_session] n
    by (simp add: ask_def sample_inputs_def)
qed

subsection \<open>The performance filter\<close>

lemma mask_rows: "map fst (filter snd (zip xs (map P xs))) = filter P xs"
  by (induction xs) simp_all

lemma performance_filter_eq:
  "''final_selection'' \<in> set (columns df) \<Longrightarrow>
   performance_filter df key =
     Inr (df\<lparr>rows := filter (\<lambda>row. selection_of df row = Str key) (rows df)\<rparr>)"
  by (simp add: performance_filter_def getitem_column_def getitem_mask_def series_eq_def
        selection_of_def mask_rows [of "rows df" "\<lambda>row. cell_at (columns df) row ''final_selection'' = Str key", unfolded map_map comp_def]
        comp_def)

text \<open>
  Claim C5. On a performance table that has the column \<^verbatim>\<open>final_selection\<close>, the filter
  returns the table with exactly the rows whose value in that column is the key, in
  the table's order; when the key stands in exactly one row, the result is that row.
\<close>

theorem performance_filter_selects_matching_rows:
  assumes "''final_selection'' \<in> set (columns df)"
  shows "\<exists>out. performance_filter df key = Inr out
    \<and> columns out = columns df
    \<and> rows out = filter (\<lambda>row. selection_of df row = Str key) (rows df)
    \<and> subseq (rows out) (rows df)
    \<and> (\<forall>before row after.
          rows df = before @ row # after \<and> selection_of df row = Str key
            \<and> (\<forall>r \<in> set (before @ after). selection_of df r \<noteq> Str key)
          \<longrightarrow> rows out = [row])"
proof -
  let ?out = "df\<lparr>rows := filter (\<lambda>row. selection_of df row = Str key) (rows df)\<rparr>"
  have "performance_filter df key = Inr ?out"
    using assms by (rule performance_filter_eq)
  moreover have "columns ?out = columns df" by simp
  moreover have "rows ?out = filter (\<lambda>row. selection_of df row = Str key) (rows df)" by simp
  moreover have "subseq (rows ?out) (rows df)" by simp
  moreover have "\<forall>before row after.
          rows df = before @ row # after \<and> selection_of df row = Str key
            \<and> (\<forall>r \<in> set (before @ after). selection_of df r \<noteq> Str key)
          \<longrightarrow> rows ?out = [row]"
    by (auto simp: filter_empty_conv)
  ultimately show ?thesis by blast
qed

lemma sample_performance_columns: "''final_selection'' \<in> set (columns sample_performance)"
  by (simp add: sample_performance_def)

theorem performance_filter_selects_matching_rows_witness:
  "''final_selection'' \<in> set (columns sample_performance)
   \<and> performance_filter sample_performance ''ChagasUM''
       = Inr (sample_performance\<lparr>rows := [[Str ''ChagasUM'', Str ''hits@10'', Num 2]]\<rparr>)
   \<and> performance_filter sample_performance ''DengueTransE''
       = Inr (sample_performance\<lparr>rows :=
           [[Str ''DengueTransE'', Str ''hits@10'', Num 1], [Str ''DengueTransE'', Str ''MRR'', Num 3]]\<rparr>)"
proof -
  have c: "''final_selection'' \<in> set (columns sample_performance)"
    by (rule sample_performance_columns)
  obtain out1 where o1: "performance_filter sample_performance ''ChagasUM'' = Inr out1"
      "columns out1 = columns sample_performance"
      "rows out1 = filter (\<lambda>row. selection_of sample_performance row = Str ''ChagasUM'')
         (rows sample_performance)"
    using performance_filter_selects_matching_rows [OF c, of "''ChagasUM''"] by blast
  obtain out2 where o2: "performance_filter sample_performance ''DengueTransE'' = Inr out2"
      "columns out2 = columns sample_performance"
      "rows out2 = filter (\<lambda>row. selection_of sample_performance row = Str ''DengueTransE'')
         (rows sample_performance)"
    using performance_filter_selects_matching_rows [OF c, of "''DengueTransE''"] by blast
  have "out1 = sample_performance\<lparr>rows := [[Str ''ChagasUM'', Str ''hits@10'', Num 2]]\<rparr>"
    using o1(2,3) by (simp add: sample_performance_def selection_of_def cell_at_def)
  moreover have "out2 = sample_performance\<lparr>rows :=
           [[Str ''DengueTransE'', Str ''hits@10'', Num 1], [Str ''DengueTransE'', Str ''MRR'', Num 3]]\<rparr>"
    using o2(2,3) by (simp add: sample_performance_def selection_of_def cell_at_def)
  ultimately show ?thesis using c o1(1) o2(1) by simp
qed

lemma pd_read_csv_ok:
  "files env path = Some csv_text \<Longrightarrow> parse_csv env sep csv_text = Inr df \<Longrightarrow>
   pd_read_csv env path sep = ([ReadCsv path sep], Inr df)"
  by (simp add: pd_read_csv_def)

lemma pd_read_csv_absent:
  "files env path = None \<Longrightarrow>
   pd_read_csv env path sep = ([ReadCsv path sep], Inl (FileNotFoundError path))"
  by (simp add: pd_read_csv_def)

lemma getitem_columns_no_rows:
  "set cs \<subseteq> set (columns df) \<Longrightarrow>
   getitem_columns (df\<lparr>rows := []\<rparr>) cs = Inr \<lparr>columns = cs, rows = []\<rparr>"
  by (auto simp: getitem_columns_def Let_def filter_empty_conv)

subsection \<open>The pages and their artifacts\<close>

lemma send_no_exception: "snd (snd (send env input s)) = Inr ()"
  by (auto simp: send_def get_gemini_response_def history_append_def Let_def
      split: sum.splits option.splits)

lemma sidebar_no_exception: "snd (snd (sidebar env inp s)) = Inr ()"
  using send_no_exception [of env "input_text inp" s]
  by (auto simp: sidebar_def split: prod.splits)

lemma app_run:
  "api_key_set env \<Longrightarrow>
   snd (app env inp s) = (page_frame @ fst (snd (sidebar env inp s)) @ fst (pages env inp),
     snd (pages env inp))"
  using sidebar_no_exception [of env inp s]
  by (cases "sidebar env inp s"; cases "pages env inp") (auto simp: app_def)

lemma then_run_skip: "then_run (emit_all []) k = k"
  by (cases k) (simp add: then_run_def bind_run_def emit_all_def)

lemma then_run_done: "then_run m (emit_all []) = m"
  by (cases m) (auto simp: then_run_def bind_run_def emit_all_def split: sum.splits)

lemma fst_then_run:
  "fst (then_run m k) = fst m @ (case snd m of Inl e \<Rightarrow> [] | Inr u \<Rightarrow> fst k)"
  by (cases m; cases k) (auto simp: then_run_def bind_run_def split: sum.splits)

lemma snd_then_run:
  "snd (then_run m k) = (case snd m of Inl e \<Rightarrow> Inl e | Inr u \<Rightarrow> snd k)"
  by (cases m; cases k) (auto simp: then_run_def bind_run_def split: sum.splits)

lemma pages_recommendations:
  "nav inp = ''Get Drugs Recommendations'' \<Longrightarrow>
   pages env inp = page_get_drugs_recommendations env inp"
  by (simp add: pages_def when_run_def then_run_skip then_run_done)

lemma pages_explore:
  "nav inp = ''Explore Knowledge Graph'' \<Longrightarrow>
   pages env inp = page_explore_knowledge_graph env inp"
  by (simp add: pages_def when_run_def then_run_skip then_run_done)

lemma drug_recommendations_ok:
  "files env (ranking_path key) = Some csv_text \<Longrightarrow> parse_csv env CHR '','' csv_text = Inr ranking \<Longrightarrow>
   drug_recommendations env key =
     ([ReadCsv (ranking_path key) CHR '','',
       StMarkdown drug_recommendations_heading,
       StWrite ranking,
       StMarkdown score_note,
       StMarkdown clinical_trials_note,
       StDownloadButton ''Download Recommendations'' (DataStr (to_csv env ranking))
         (key @ ''_recommendations.csv'') ''text/csv''], Inr ())"
  by (simp add: drug_recommendations_def pd_read_csv_ok bind_run_def emit_all_def)

lemma drug_recommendations_absent:
  "files env (ranking_path key) = None \<Longrightarrow>
   drug_recommendations env key =
     ([ReadCsv (ranking_path key) CHR '',''], Inl (FileNotFoundError (ranking_path key)))"
  by (simp add: drug_recommendations_def pd_read_csv_absent bind_run_def)

lemma drug_recommendations_first:
  "\<exists>t. fst (drug_recommendations env key) = ReadCsv (ranking_path key) CHR '','' # t"
  by (auto simp: drug_recommendations_def pd_read_csv_def bind_run_def emit_all_def
        split: option.splits sum.splits)

lemma knowledge_graph_viewer_ok:
  "files env (graph_path disease) = Some doc \<Longrightarrow>
   knowledge_graph_viewer env disease =
     ([StMarkdown div_open,
       OpenFile (graph_path disease),
       ComponentsHtml doc,
       StMarkdown div_close,
       StDownloadButton ''Download Knowledge Graph''
         (DataFile \<lparr>content = doc, pos = length doc\<rparr>)
         (disease @ ''_knowledge_graph.html'') ''text/html''], Inr ())"
  by (simp add: knowledge_graph_viewer_def open_file_def file_read_def then_run_def
        bind_run_def emit_def emit_all_def)

lemma knowledge_graph_viewer_absent:
  "files env (graph_path disease) = None \<Longrightarrow>
   knowledge_graph_viewer env disease =
     ([StMarkdown div_open, OpenFile (graph_path disease)],
      Inl (FileNotFoundError (graph_path disease)))"
  by (simp add: knowledge_graph_viewer_def open_file_def then_run_def bind_run_def emit_def)

lemma page_explore_ok:
  "files env (graph_path (explore_disease_selection inp)) = Some doc \<Longrightarrow>
   page_explore_knowledge_graph env inp =
     ([StText [], p_title ''Explore Knowledge Graph'', StText [],
       StSelectbox ''Select a disease for Knowledge Graph Exploration'' diseases,
       StMarkdown div_open,
       OpenFile (graph_path (explore_disease_selection inp)),
       ComponentsHtml doc,
       StMarkdown div_close,
       StDownloadButton ''Download Knowledge Graph''
         (DataFile \<lparr>content = doc, pos = length doc\<rparr>)
         (explore_disease_selection inp @ ''_knowledge_graph.html'') ''text/html''], Inr ())"
  by (simp add: page_explore_knowledge_graph_def knowledge_graph_viewer_ok then_run_def
        bind_run_def emit_all_def)

text \<open>
  Claim C1. The composite key is the disease followed by the model, for all strings.
  The first thing the Get Recommendations handler does is to read
  \<^verbatim>\<open>embedding_models/<key>.csv\<close>, whatever the selection; when that table loads, the run
  offers it under the file name \<^verbatim>\<open><key>_recommendations.csv\<close>.
\<close>

theorem composite_key_is_concatenation:
  "final_selection disease model = disease @ model
   \<and> (\<exists>t. fst (get_recommendations env disease model)
          = ReadCsv (''embedding_models/'' @ disease @ model @ ''.csv'') CHR '','' # t)
   \<and> (files env (''embedding_models/'' @ disease @ model @ ''.csv'') = Some csv_text
        \<and> parse_csv env CHR '','' csv_text = Inr ranking
      \<longrightarrow> StDownloadButton ''Download Recommendations'' (DataStr (to_csv env ranking))
            (disease @ model @ ''_recommendations.csv'') ''text/csv''
          \<in> set (fst (get_recommendations env disease model)))"
proof (intro conjI impI)
  show "final_selection disease model = disease @ model"
    by (simp add: final_selection_def)
next
  obtain t where "fst (drug_recommendations env (disease @ model))
      = ReadCsv (ranking_path (disease @ model)) CHR '','' # t"
    using drug_recommendations_first by blast
  then show "\<exists>t. fst (get_recommendations env disease model)
          = ReadCsv (''embedding_models/'' @ disease @ model @ ''.csv'') CHR '','' # t"
    by (simp add: get_recommendations_def Let_def final_selection_def fst_then_run ranking_path_def)
next
  assume "files env (''embedding_models/'' @ disease @ model @ ''.csv'') = Some csv_text
        \<and> parse_csv env CHR '','' csv_text = Inr ranking"
  then have "files env (ranking_path (disease @ model)) = Some csv_text"
    and "parse_csv env CHR '','' csv_text = Inr ranking"
    by (simp_all add: ranking_path_def)
  then have "drug_recommendations env (disease @ model) =
     ([ReadCsv (ranking_path (disease @ model)) CHR '','',
       StMarkdown drug_recommendations_heading,
       StWrite ranking,
       StMarkdown score_note,
       StMarkdown clinical_trials_note,
       StDownloadButton ''Download Recommendations'' (DataStr (to_csv env ranking))
         ((disease @ model) @ ''_recommendations.csv'') ''text/csv''], Inr ())"
    by (rule drug_recommendations_ok)
  then show "StDownloadButton ''Download Recommendations'' (DataStr (to_csv env ranking))
            (disease @ model @ ''_recommendations.csv'') ''text/csv''
          \<in> set (fst (get_recommendations env disease model))"
    by (simp add: get_recommendations_def Let_def final_selection_def fst_then_run)
qed

theorem composite_key_is_concatenation_witness:
  "final_selection ''Dengue'' ''TransE'' = ''DengueTransE''
   \<and> files sample_env ''embedding_models/DengueTransE.csv'' = Some ''drug,score,in_clinical_trials''
   \<and> parse_csv sample_env CHR '','' ''drug,score,in_clinical_trials'' = Inr sample_ranking
   \<and> StDownloadButton ''Download Recommendations'' (DataStr ''drug,score,in_clinical_trials'')
        ''DengueTransE_recommendations.csv'' ''text/csv''
      \<in> set (fst (get_recommendations sample_env ''Dengue'' ''TransE''))"
proof -
  have e: "files sample_env ''embedding_models/DengueTransE.csv'' = Some ''drug,score,in_clinical_trials''
      \<and> parse_csv sample_env CHR '','' ''drug,score,in_clinical_trials'' = Inr sample_ranking"
    by (simp add: sample_env_def)
  have c: "to_csv sample_env sample_ranking = ''drug,score,in_clinical_trials''"
    by (simp add: sample_env_def)
  show ?thesis
    using composite_key_is_concatenation [of "''Dengue''" "''TransE''" sample_env
        "''drug,score,in_clinical_trials''" sample_ranking] e c
    by simp
qed

lemma opened_files_Nil: "opened_files [] = []"
  by (simp add: opened_files_def)

lemma opened_files_Cons:
  "opened_files (e # t) = (case e of OpenFile p \<Rightarrow> [p] | _ \<Rightarrow> []) @ opened_files t"
  by (simp add: opened_files_def)

lemma embedded_documents_Nil: "embedded_documents [] = []"
  by (simp add: embedded_documents_def)

lemma embedded_documents_Cons:
  "embedded_documents (e # t)
     = (case e of ComponentsHtml d \<Rightarrow> [d] | _ \<Rightarrow> []) @ embedded_documents t"
  by (simp add: embedded_documents_def)

lemma offered_downloads_Nil: "offered_downloads [] = []"
  by (simp add: offered_downloads_def)

lemma offered_downloads_Cons:
  "offered_downloads (e # t)
     = (case e of StDownloadButton l d f m \<Rightarrow> [(f, marshall_file d)] | _ \<Rightarrow> [])
       @ offered_downloads t"
  by (simp add: offered_downloads_def)

text \<open>
  Claim C8. In the mode Explore Knowledge Graph, for every disease whose graph
  document exists, the run opens exactly one file,
  \<^verbatim>\<open>graphs/knowledge_graph_<Disease>.html\<close>, embeds exactly one document, the text of
  that file, and ends without an exception.
\<close>

theorem explore_loads_one_graph_document:
  assumes "nav inp = ''Explore Knowledge Graph''"
    and "explore_disease_selection inp = disease"
    and "files env (''graphs/knowledge_graph_'' @ disease @ ''.html'') = Some doc"
  shows "opened_files (fst (pages env inp)) = [''graphs/knowledge_graph_'' @ disease @ ''.html'']
    \<and> embedded_documents (fst (pages env inp)) = [doc]
    \<and> snd (pages env inp) = Inr ()"
proof -
  have "files env (graph_path (explore_disease_selection inp)) = Some doc"
    using assms(2,3) by (simp add: graph_path_def)
  then have "pages env inp =
     ([StText [], p_title ''Explore Knowledge Graph'', StText [],
       StSelectbox ''Select a disease for Knowledge Graph Exploration'' diseases,
       StMarkdown div_open,
       OpenFile (graph_path (explore_disease_selection inp)),
       ComponentsHtml doc,
       StMarkdown div_close,
       StDownloadButton ''Download Knowledge Graph''
         (DataFile \<lparr>content = doc, pos = length doc\<rparr>)
         (explore_disease_selection inp @ ''_knowledge_graph.html'') ''text/html''], Inr ())"
    using assms(1) by (simp add: pages_explore page_explore_ok)
  then show ?thesis
    using assms(2)
    by (simp add: opened_files_Nil opened_files_Cons embedded_documents_Nil
          embedded_documents_Cons p_title_def graph_path_def)
qed

lemma sample_graph_file:
  "files sample_env ''graphs/knowledge_graph_Dengue.html'' = Some ''<html></html>''"
  by (simp add: sample_env_def)

theorem explore_loads_one_graph_document_witness:
  "nav (explore ''Dengue'') = ''Explore Knowledge Graph''
   \<and> explore_disease_selection (explore ''Dengue'') = ''Dengue''
   \<and> files sample_env ''graphs/knowledge_graph_Dengue.html'' = Some ''<html></html>''
   \<and> opened_files (fst (pages sample_env (explore ''Dengue'')))
       = [''graphs/knowledge_graph_Dengue.html'']
   \<and> embedded_documents (fst (pages sample_env (explore ''Dengue''))) = [''<html></html>'']
   \<and> snd (pages sample_env (explore ''Dengue'')) = Inr ()"
proof -
  have n: "nav (explore ''Dengue'') = ''Explore Knowledge Graph''"
    and d: "explore_disease_selection (explore ''Dengue'') = ''Dengue''"
    by (simp_all add: explore_def sample_inputs_def)
  have f: "files sample_env (''graphs/knowledge_graph_'' @ ''Dengue'' @ ''.html'')
      = Some ''<html></html>''"
    using sample_graph_file by simp
  show ?thesis
    using explore_loads_one_graph_document [OF n d f] n d sample_graph_file by simp
qed

lemma offered_downloads_append:
  "offered_downloads (a @ b) = offered_downloads a @ offered_downloads b"
  by (simp add: offered_downloads_def)

lemma offered_downloads_model_performance:
  "offered_downloads (fst (model_performance env key)) = []"
  by (auto simp: model_performance_def bind_run_def then_run_def lift_def emit_def
        pd_read_csv_def offered_downloads_Nil offered_downloads_Cons
        split: option.splits sum.splits prod.splits)

text \<open>
  Claim C2, evaluated on the sample world. The graph document of Dengue holds
  \<^verbatim>\<open><html></html>\<close>, and that text is embedded in the page. The download the Explore
  page offers has the file name \<^verbatim>\<open>Dengue_knowledge_graph.html\<close>, and its content is
  empty: the button is given the file object after \<^verbatim>\<open>HtmlFile.read()\<close> has moved the
  read position to the end. The Get Recommendations handler offers the same empty
  graph download, next to the recommendations download, which is given the text of
  the table and carries it.
\<close>

theorem knowledge_graph_download_is_empty:
  "files sample_env ''graphs/knowledge_graph_Dengue.html'' = Some ''<html></html>''
   \<and> embedded_documents (fst (pages sample_env (explore ''Dengue''))) = [''<html></html>'']
   \<and> offered_downloads (fst (pages sample_env (explore ''Dengue'')))
       = [(''Dengue_knowledge_graph.html'', [])]
   \<and> offered_downloads (fst (get_recommendations sample_env ''Dengue'' ''TransE''))
       = [(''DengueTransE_recommendations.csv'', ''drug,score,in_clinical_trials''),
          (''Dengue_knowledge_graph.html'', [])]"
proof -
  have n: "nav (explore ''Dengue'') = ''Explore Knowledge Graph''"
    and d: "explore_disease_selection (explore ''Dengue'') = ''Dengue''"
    by (simp_all add: explore_def sample_inputs_def)
  have g: "files sample_env (graph_path ''Dengue'') = Some ''<html></html>''"
    using sample_graph_file by (simp add: graph_path_def)
  then have "files sample_env (graph_path (explore_disease_selection (explore ''Dengue'')))
      = Some ''<html></html>''"
    by (simp add: d)
  then have "pages sample_env (explore ''Dengue'') =
     ([StText [], p_title ''Explore Knowledge Graph'', StText [],
       StSelectbox ''Select a disease for Knowledge Graph Exploration'' diseases,
       StMarkdown div_open,
       OpenFile (graph_path (explore_disease_selection (explore ''Dengue''))),
       ComponentsHtml ''<html></html>'',
       StMarkdown div_close,
       StDownloadButton ''Download Knowledge Graph''
         (DataFile \<lparr>content = ''<html></html>'', pos = length ''<html></html>''\<rparr>)
         (explore_disease_selection (explore ''Dengue'') @ ''_knowledge_graph.html'')
         ''text/html''], Inr ())"
    using n by (simp only: pages_explore page_explore_ok)
  then have e: "embedded_documents (fst (pages sample_env (explore ''Dengue''))) = [''<html></html>'']
      \<and> offered_downloads (fst (pages sample_env (explore ''Dengue'')))
       = [(''Dengue_knowledge_graph.html'', [])]"
    by (simp add: d offered_downloads_Nil offered_downloads_Cons embedded_documents_Nil
          embedded_documents_Cons p_title_def marshall_file_def file_read_def)
  have "files sample_env (ranking_path ''DengueTransE'') = Some ''drug,score,in_clinical_trials''"
    and "parse_csv sample_env CHR '','' ''drug,score,in_clinical_trials'' = Inr sample_ranking"
    by (simp_all add: sample_env_def ranking_path_def)
  then have r: "drug_recommendations sample_env ''DengueTransE'' =
     ([ReadCsv (ranking_path ''DengueTransE'') CHR '','',
       StMarkdown drug_recommendations_heading,
       StWrite sample_ranking,
       StMarkdown score_note,
       StMarkdown clinical_trials_note,
       StDownloadButton ''Download Recommendations'' (DataStr (to_csv sample_env sample_ranking))
         (''DengueTransE'' @ ''_recommendations.csv'') ''text/csv''], Inr ())"
    by (rule drug_recommendations_ok)
  have c: "to_csv sample_env sample_ranking = ''drug,score,in_clinical_trials''"
    by (simp add: sample_env_def)
  have "offered_downloads (fst (get_recommendations sample_env ''Dengue'' ''TransE''))
       = [(''DengueTransE_recommendations.csv'', ''drug,score,in_clinical_trials''),
          (''Dengue_knowledge_graph.html'', [])]"
    by (simp add: get_recommendations_def Let_def final_selection_def fst_then_run r c
          knowledge_graph_viewer_ok [OF g] emit_all_def offered_downloads_append
          offered_downloads_Nil offered_downloads_Cons offered_downloads_model_performance
          marshall_file_def file_read_def)
  then show ?thesis
    using e sample_graph_file by simp
qed

lemma page_recommendations_run:
  "get_recommendations_button inp \<Longrightarrow>
   page_get_drugs_recommendations env inp =
     ([StText [], p_title ''Get Drug Recommendations'', StText [],
       StSelectbox ''Select a disease'' diseases,
       StSelectbox ''Select an embedding model'' models,
       StButton ''Get Recommendations'']
        @ fst (get_recommendations env (disease_selection inp) (model_selection inp)),
      snd (get_recommendations env (disease_selection inp) (model_selection inp)))"
  by (cases "get_recommendations env (disease_selection inp) (model_selection inp)")
     (simp add: page_get_drugs_recommendations_def then_run_def bind_run_def emit_all_def)

lemma get_recommendations_no_ranking:
  "files env (ranking_path (disease @ model)) = None \<Longrightarrow>
   snd (get_recommendations env disease model)
     = Inl (FileNotFoundError (ranking_path (disease @ model)))"
  by (simp add: get_recommendations_def Let_def final_selection_def snd_then_run
        drug_recommendations_absent)

lemma get_recommendations_no_graph:
  "files env (ranking_path (disease @ model)) = Some csv_text \<Longrightarrow>
   parse_csv env CHR '','' csv_text = Inr ranking \<Longrightarrow>
   files env (graph_path disease) = None \<Longrightarrow>
   snd (get_recommendations env disease model) = Inl (FileNotFoundError (graph_path disease))"
  by (simp add: get_recommendations_def Let_def final_selection_def snd_then_run
        drug_recommendations_ok knowledge_graph_viewer_absent emit_all_def)

lemma get_recommendations_reads_ranking:
  "ReadCsv (ranking_path (disease @ model)) CHR '','' \<in> set (fst (get_recommendations env disease model))"
  using drug_recommendations_first [of env "disease @ model"]
  by (auto simp: get_recommendations_def Let_def final_selection_def fst_then_run)

text \<open>
  Claim C9. With the API key set, a run ends with the \<^verbatim>\<open>FileNotFoundError\<close> of the
  missing file as the outcome of the whole script, in each of these cases: Get
  Recommendations is pressed for a pair whose ranking table is absent; it is pressed
  for a pair whose ranking table loads and whose graph document is absent; the
  Explore page is shown for a disease whose graph document is absent. Pressing Get
  Recommendations for Dengue and TransE reads \<^verbatim>\<open>embedding_models/DengueTransE.csv\<close>.
\<close>

theorem missing_artifact_propagates:
  assumes "api_key_set env"
  shows "(nav inp = ''Get Drugs Recommendations'' \<and> get_recommendations_button inp
        \<and> files env (''embedding_models/'' @ disease_selection inp @ model_selection inp @ ''.csv'')
            = None
      \<longrightarrow> snd (snd (app env inp s)) = Inl (FileNotFoundError
            (''embedding_models/'' @ disease_selection inp @ model_selection inp @ ''.csv'')))
    \<and> (nav inp = ''Get Drugs Recommendations'' \<and> get_recommendations_button inp
        \<and> files env (''embedding_models/'' @ disease_selection inp @ model_selection inp @ ''.csv'')
            = Some csv_text
        \<and> parse_csv env CHR '','' csv_text = Inr ranking
        \<and> files env (''graphs/knowledge_graph_'' @ disease_selection inp @ ''.html'') = None
      \<longrightarrow> snd (snd (app env inp s)) = Inl (FileNotFoundError
            (''graphs/knowledge_graph_'' @ disease_selection inp @ ''.html'')))
    \<and> (nav inp = ''Explore Knowledge Graph''
        \<and> files env (''graphs/knowledge_graph_'' @ explore_disease_selection inp @ ''.html'') = None
      \<longrightarrow> snd (snd (app env inp s)) = Inl (FileNotFoundError
            (''graphs/knowledge_graph_'' @ explore_disease_selection inp @ ''.html'')))
    \<and> (nav inp = ''Get Drugs Recommendations'' \<and> get_recommendations_button inp
        \<and> disease_selection inp = ''Dengue'' \<and> model_selection inp = ''TransE''
      \<longrightarrow> ReadCsv ''embedding_models/DengueTransE.csv'' CHR '','' \<in> set (fst (snd (app env inp s))))"
proof (intro conjI impI)
  assume a: "nav inp = ''Get Drugs Recommendations'' \<and> get_recommendations_button inp
        \<and> files env (''embedding_models/'' @ disease_selection inp @ model_selection inp @ ''.csv'')
            = None"
  then have "files env (ranking_path (disease_selection inp @ model_selection inp)) = None"
    by (simp add: ranking_path_def)
  then have "snd (get_recommendations env (disease_selection inp) (model_selection inp))
      = Inl (FileNotFoundError (ranking_path (disease_selection inp @ model_selection inp)))"
    by (rule get_recommendations_no_ranking)
  then show "snd (snd (app env inp s)) = Inl (FileNotFoundError
            (''embedding_models/'' @ disease_selection inp @ model_selection inp @ ''.csv''))"
    using a assms
    by (simp add: app_run pages_recommendations page_recommendations_run ranking_path_def)
next
  assume a: "nav inp = ''Get Drugs Recommendations'' \<and> get_recommendations_button inp
        \<and> files env (''embedding_models/'' @ disease_selection inp @ model_selection inp @ ''.csv'')
            = Some csv_text
        \<and> parse_csv env CHR '','' csv_text = Inr ranking
        \<and> files env (''graphs/knowledge_graph_'' @ disease_selection inp @ ''.html'') = None"
  then have "files env (ranking_path (disease_selection inp @ model_selection inp)) = Some csv_text"
    and "parse_csv env CHR '','' csv_text = Inr ranking"
    and "files env (graph_path (disease_selection inp)) = None"
    by (simp_all add: ranking_path_def graph_path_def)
  then have "snd (get_recommendations env (disease_selection inp) (model_selection inp))
      = Inl (FileNotFoundError (graph_path (disease_selection inp)))"
    by (rule get_recommendations_no_graph)
  then show "snd (snd (app env inp s)) = Inl (FileNotFoundError
            (''graphs/knowledge_graph_'' @ disease_selection inp @ ''.html''))"
    using a assms
    by (simp add: app_run pages_recommendations page_recommendations_run graph_path_def)
next
  assume a: "nav inp = ''Explore Knowledge Graph''
        \<and> files env (''graphs/knowledge_graph_'' @ explore_disease_selection inp @ ''.html'') = None"
  then have "files env (graph_path (explore_disease_selection inp)) = None"
    by (simp add: graph_path_def)
  then have "snd (knowledge_graph_viewer env (explore_disease_selection inp))
      = Inl (FileNotFoundError (graph_path (explore_disease_selection inp)))"
    by (simp add: knowledge_graph_viewer_absent)
  then show "snd (snd (app env inp s)) = Inl (FileNotFoundError
            (''graphs/knowledge_graph_'' @ explore_disease_selection inp @ ''.html''))"
    using a assms
    by (simp add: app_run pages_explore page_explore_knowledge_graph_def snd_then_run
          emit_all_def graph_path_def)
next
  assume a: "nav inp = ''Get Drugs Recommendations'' \<and> get_recommendations_button inp
        \<and> disease_selection inp = ''Dengue'' \<and> model_selection inp = ''TransE''"
  have "ReadCsv (ranking_path (''Dengue'' @ ''TransE'')) CHR '','' 
      \<in> set (fst (get_recommendations env ''Dengue'' ''TransE''))"
    by (rule get_recommendations_reads_ranking)
  then show "ReadCsv ''embedding_models/DengueTransE.csv'' CHR '','' \<in> set (fst (snd (app env inp s)))"
    using a assms
    by (simp add: app_run pages_recommendations page_recommendations_run ranking_path_def)
qed

lemma api_key_set_without_file: "api_key_set (without_file path sample_env)"
  by (simp add: api_key_set_def without_file_def sample_env_def)

theorem missing_artifact_propagates_witness:
  "api_key_set (without_file ''embedding_models/DengueTransE.csv'' sample_env)
   \<and> files (without_file ''embedding_models/DengueTransE.csv'' sample_env)
        ''embedding_models/DengueTransE.csv'' = None
   \<and> snd (snd (app (without_file ''embedding_models/DengueTransE.csv'' sample_env)
        (recommend ''Dengue'' ''TransE'') fresh_session))
       = Inl (FileNotFoundError ''embedding_models/DengueTransE.csv'')
   \<and> ReadCsv ''embedding_models/DengueTransE.csv'' CHR '',''
       \<in> set (fst (snd (app (without_file ''embedding_models/DengueTransE.csv'' sample_env)
            (recommend ''Dengue'' ''TransE'') fresh_session)))
   \<and> files (without_file ''graphs/knowledge_graph_Dengue.html'' sample_env)
        ''graphs/knowledge_graph_Dengue.html'' = None
   \<and> snd (snd (app (without_file ''graphs/knowledge_graph_Dengue.html'' sample_env)
        (recommend ''Dengue'' ''TransE'') fresh_session))
       = Inl (FileNotFoundError ''graphs/knowledge_graph_Dengue.html'')
   \<and> snd (snd (app (without_file ''graphs/knowledge_graph_Dengue.html'' sample_env)
        (explore ''Dengue'') fresh_session))
       = Inl (FileNotFoundError ''graphs/knowledge_graph_Dengue.html'')"
proof -
  let ?no_csv = "without_file ''embedding_models/DengueTransE.csv'' sample_env"
  let ?no_graph = "without_file ''graphs/knowledge_graph_Dengue.html'' sample_env"
  have r: "nav (recommend ''Dengue'' ''TransE'') = ''Get Drugs Recommendations''"
      "get_recommendations_button (recommend ''Dengue'' ''TransE'')"
      "disease_selection (recommend ''Dengue'' ''TransE'') = ''Dengue''"
      "model_selection (recommend ''Dengue'' ''TransE'') = ''TransE''"
    by (simp_all add: recommend_def sample_inputs_def)
  have x: "nav (explore ''Dengue'') = ''Explore Knowledge Graph''"
      "explore_disease_selection (explore ''Dengue'') = ''Dengue''"
    by (simp_all add: explore_def sample_inputs_def)
  have f1: "files ?no_csv ''embedding_models/DengueTransE.csv'' = None"
    by (simp add: without_file_def)
  have f2: "files ?no_graph ''graphs/knowledge_graph_Dengue.html'' = None"
      "files ?no_graph ''embedding_models/DengueTransE.csv'' = Some ''drug,score,in_clinical_trials''"
      "parse_csv ?no_graph CHR '','' ''drug,score,in_clinical_trials'' = Inr sample_ranking"
    by (simp_all add: without_file_def sample_env_def)
  have a: "snd (snd (app ?no_csv (recommend ''Dengue'' ''TransE'') fresh_session))
       = Inl (FileNotFoundError ''embedding_models/DengueTransE.csv'')"
    and b: "ReadCsv ''embedding_models/DengueTransE.csv'' CHR '',''
       \<in> set (fst (snd (app ?no_csv (recommend ''Dengue'' ''TransE'') fresh_session)))"
    using missing_artifact_propagates [OF api_key_set_without_file [of "''embedding_models/DengueTransE.csv''"],
        where inp = "recommend ''Dengue'' ''TransE''" and s = fresh_session]
      r f1
    by simp_all
  have c: "snd (snd (app ?no_graph (recommend ''Dengue'' ''TransE'') fresh_session))
       = Inl (FileNotFoundError ''graphs/knowledge_graph_Dengue.html'')"
    using missing_artifact_propagates [OF api_key_set_without_file [of "''graphs/knowledge_graph_Dengue.html''"],
        where inp = "recommend ''Dengue'' ''TransE''" and s = fresh_session
          and csv_text = "''drug,score,in_clinical_trials''" and ranking = sample_ranking]
      r f2
    by simp
  have d: "snd (snd (app ?no_graph (explore ''Dengue'') fresh_session))
       = Inl (FileNotFoundError ''graphs/knowledge_graph_Dengue.html'')"
    using missing_artifact_propagates [OF api_key_set_without_file [of "''graphs/knowledge_graph_Dengue.html''"],
        where inp = "explore ''Dengue''" and s = fresh_session]
      x f2(1)
    by simp
  show ?thesis
    using a b c d f1 f2(1) api_key_set_without_file by simp
qed

subsection \<open>The performance rows of a selection that has none\<close>

lemma model_performance_no_match:
  assumes "''final_selection'' \<in> set (columns df)"
    and "\<forall>row \<in> set (rows df). selection_of df row \<noteq> Str key"
    and "files env ''embedding_models/performance_metrics.csv'' = Some csv_text"
    and "parse_csv env CHR '';'' csv_text = Inr df"
    and "''Measure'' \<in> set (columns df)" and "''Value'' \<in> set (columns df)"
  shows "model_performance env key =
     ([ReadCsv ''embedding_models/performance_metrics.csv'' CHR '';'',
       StMarkdown embedding_model_performance_heading,
       StDataframe \<lparr>columns = [''Measure'', ''Value''], rows = []\<rparr>],
      Inl (case plot_bar env (df\<lparr>rows := []\<rparr>) ''Measure'' ''Value'' of
             Inl e \<Rightarrow> e
           | Inr bs \<Rightarrow> IndexError ''index 0 is out of bounds for axis 0 with size 0''))"
proof -
  have f: "performance_filter df key = Inr (df\<lparr>rows := []\<rparr>)"
    using assms(1,2) by (simp add: performance_filter_eq filter_empty_conv)
  have r: "pd_read_csv env ''embedding_models/performance_metrics.csv'' CHR '';''
      = ([ReadCsv ''embedding_models/performance_metrics.csv'' CHR '';''], Inr df)"
    using assms(3,4) by (simp add: pd_read_csv_ok)
  have c: "getitem_columns (df\<lparr>rows := []\<rparr>) [''Measure'', ''Value'']
      = Inr \<lparr>columns = [''Measure'', ''Value''], rows = []\<rparr>"
    using assms(5,6) by (simp add: getitem_columns_no_rows)
  have p: "df_plot_bar env (df\<lparr>rows := []\<rparr>) ''Measure'' ''Value''
      = Inl (case plot_bar env (df\<lparr>rows := []\<rparr>) ''Measure'' ''Value'' of
               Inl e \<Rightarrow> e
             | Inr bs \<Rightarrow> IndexError ''index 0 is out of bounds for axis 0 with size 0'')"
    by (simp add: df_plot_bar_def split: sum.splits)
  show ?thesis
    unfolding model_performance_def
    by (simp add: r f c p bind_run_def then_run_def lift_def emit_def)
qed

lemma get_recommendations_outcome:
  assumes "files env (ranking_path (disease @ model)) = Some csv_text"
    and "parse_csv env CHR '','' csv_text = Inr ranking"
    and "files env (graph_path disease) = Some doc"
  shows "snd (get_recommendations env disease model)
    = snd (model_performance env (disease @ model))"
  by (simp add: get_recommendations_def Let_def final_selection_def snd_then_run
        drug_recommendations_ok [OF assms(1,2)] knowledge_graph_viewer_ok [OF assms(3)]
        emit_all_def)

text \<open>
  Claim C4. When the performance table loads with the columns \<^verbatim>\<open>final_selection\<close>,
  Measure and Value and no row has the key, the filter returns the table with no
  rows as a normal result, and the caller renders the empty table with
  \<^verbatim>\<open>st.dataframe\<close>. The caller does not end without an error, though: it goes on to
  plot the empty result as a bar chart, with no test for emptiness, and the run
  ends with the exception the plot raises.
\<close>

theorem empty_performance_result_raises_in_plot:
  assumes "''final_selection'' \<in> set (columns df)"
    and "\<forall>row \<in> set (rows df). selection_of df row \<noteq> Str key"
    and "files env ''embedding_models/performance_metrics.csv'' = Some csv_text"
    and "parse_csv env CHR '';'' csv_text = Inr df"
    and "''Measure'' \<in> set (columns df)" and "''Value'' \<in> set (columns df)"
  shows "performance_filter df key = Inr (df\<lparr>rows := []\<rparr>)
    \<and> (\<exists>e. model_performance env key =
          ([ReadCsv ''embedding_models/performance_metrics.csv'' CHR '';'',
            StMarkdown embedding_model_performance_heading,
            StDataframe \<lparr>columns = [''Measure'', ''Value''], rows = []\<rparr>], Inl e))"
proof
  show "performance_filter df key = Inr (df\<lparr>rows := []\<rparr>)"
    using assms(1,2) by (simp add: performance_filter_eq filter_empty_conv)
next
  show "\<exists>e. model_performance env key =
          ([ReadCsv ''embedding_models/performance_metrics.csv'' CHR '';'',
            StMarkdown embedding_model_performance_heading,
            StDataframe \<lparr>columns = [''Measure'', ''Value''], rows = []\<rparr>], Inl e)"
    using model_performance_no_match [OF assms] by blast
qed

lemma sparse_world:
  "''final_selection'' \<in> set (columns sparse_performance)"
  "\<forall>row \<in> set (rows sparse_performance).
     selection_of sparse_performance row \<noteq> Str ''DengueTransE''"
  "files sparse_env ''embedding_models/performance_metrics.csv''
     = Some ''final_selection;Measure;Value''"
  "parse_csv sparse_env CHR '';'' ''final_selection;Measure;Value'' = Inr sparse_performance"
  "''Measure'' \<in> set (columns sparse_performance)"
  "''Value'' \<in> set (columns sparse_performance)"
  by (simp_all add: sparse_env_def sample_env_def sparse_performance_def selection_of_def
        cell_at_def)

theorem empty_performance_result_raises_in_plot_witness:
  "''final_selection'' \<in> set (columns sparse_performance)
   \<and> files sparse_env ''embedding_models/performance_metrics.csv''
       = Some ''final_selection;Measure;Value''
   \<and> parse_csv sparse_env CHR '';'' ''final_selection;Measure;Value'' = Inr sparse_performance
   \<and> performance_filter sparse_performance ''DengueTransE''
       = Inr (sparse_performance\<lparr>rows := []\<rparr>)
   \<and> model_performance sparse_env ''DengueTransE'' =
       ([ReadCsv ''embedding_models/performance_metrics.csv'' CHR '';'',
         StMarkdown embedding_model_performance_heading,
         StDataframe \<lparr>columns = [''Measure'', ''Value''], rows = []\<rparr>],
        Inl (IndexError ''index 0 is out of bounds for axis 0 with size 0''))
   \<and> snd (snd (app sparse_env (recommend ''Dengue'' ''TransE'') fresh_session))
       = Inl (IndexError ''index 0 is out of bounds for axis 0 with size 0'')"
proof -
  obtain e where m: "model_performance sparse_env ''DengueTransE'' =
       ([ReadCsv ''embedding_models/performance_metrics.csv'' CHR '';'',
         StMarkdown embedding_model_performance_heading,
         StDataframe \<lparr>columns = [''Measure'', ''Value''], rows = []\<rparr>], Inl e)"
    and f: "performance_filter sparse_performance ''DengueTransE''
       = Inr (sparse_performance\<lparr>rows := []\<rparr>)"
    using empty_performance_result_raises_in_plot [OF sparse_world] by blast
  have "plot_bar sparse_env (sparse_performance\<lparr>rows := []\<rparr>) ''Measure'' ''Value'' = Inr []"
    by (simp add: sparse_env_def sample_env_def)
  then have "snd (model_performance sparse_env ''DengueTransE'')
      = Inl (IndexError ''index 0 is out of bounds for axis 0 with size 0'')"
    using model_performance_no_match [OF sparse_world] by simp
  with m have e: "e = IndexError ''index 0 is out of bounds for axis 0 with size 0''"
    by simp
  have k: "api_key_set sparse_env"
    by (simp add: api_key_set_def sparse_env_def sample_env_def)
  have r: "nav (recommend ''Dengue'' ''TransE'') = ''Get Drugs Recommendations''"
      "get_recommendations_button (recommend ''Dengue'' ''TransE'')"
      "disease_selection (recommend ''Dengue'' ''TransE'') = ''Dengue''"
      "model_selection (recommend ''Dengue'' ''TransE'') = ''TransE''"
    by (simp_all add: recommend_def sample_inputs_def)
  have w: "files sparse_env (ranking_path (''Dengue'' @ ''TransE''))
        = Some ''drug,score,in_clinical_trials''"
      "parse_csv sparse_env CHR '','' ''drug,score,in_clinical_trials'' = Inr sample_ranking"
      "files sparse_env (graph_path ''Dengue'') = Some ''<html></html>''"
    by (simp_all add: sparse_env_def sample_env_def ranking_path_def graph_path_def)
  have "snd (get_recommendations sparse_env ''Dengue'' ''TransE'')
      = snd (model_performance sparse_env (''Dengue'' @ ''TransE''))"
    by (rule get_recommendations_outcome [OF w])
  then have a: "snd (snd (app sparse_env (recommend ''Dengue'' ''TransE'') fresh_session))
       = Inl (IndexError ''index 0 is out of bounds for axis 0 with size 0'')"
    using m e k r by (simp add: app_run pages_recommendations page_recommendations_run)
  show ?thesis
    using m e f a sparse_world(1,3,4) by simp
qed

end
